theory Spec2Isabelle
  imports Complex_Main "HOL-Library.AList" "HOL-Library.Sublist"
begin

section \<open>Exceptions\<close>

text \<open>
  The Python exceptions that the modelled code can raise. A function that can raise returns
  \<open>error + 'a\<close>, with \<open>Inl\<close> for the exception.
\<close>

datatype error = ValueError | TypeError | AttributeError | RenderError

section \<open>Deduplication ledger (daily\_report.py, run\_news\_report, lines 290--307)\<close>

text \<open>
  An instant is a number of microseconds on the UTC time line, the resolution of Python's
  \<open>datetime\<close>. The ledger file is a JSON object from URL to a stored value; the run reads a
  stored value only through \<open>datetime.fromisoformat\<close>, so a stored value is identified with
  what that call makes of it: an offset-aware datetime (what the run itself writes,
  \<open>datetime.now(timezone.utc).isoformat()\<close>), a naive datetime (an ISO string without
  offset), a \<open>ValueError\<close> (a string that is no ISO timestamp) or a \<open>TypeError\<close> (a JSON
  value that is no string).
\<close>

type_synonym instant = int

datatype stamp = Aware instant | Naive instant | Malformed | NotString

text \<open>A Python dict keeps insertion order and has unique keys: an association list.\<close>

type_synonym ledger = "(string \<times> stamp) list"

definition RETENTION_DAYS :: int where
  "RETENTION_DAYS = 14"

definition timedelta_days :: "int \<Rightarrow> int" where
  "timedelta_days d = d * 86400 * 1000000"

definition cutoff_date :: "instant \<Rightarrow> instant" where
  "cutoff_date now = now - timedelta_days RETENTION_DAYS"

text \<open>
  \<open>datetime.fromisoformat(timestamp) > cutoff_date\<close>, where \<open>cutoff_date\<close> is offset-aware:
  comparing a naive datetime with it raises \<open>TypeError\<close>.
\<close>

fun newer_than :: "instant \<Rightarrow> stamp \<Rightarrow> error + bool" where
  "newer_than cutoff (Aware t) = Inr (t > cutoff)"
| "newer_than cutoff (Naive t) = Inl TypeError"
| "newer_than cutoff Malformed = Inl ValueError"
| "newer_than cutoff NotString = Inl TypeError"

text \<open>
  The dict comprehension of line 301, entry by entry in the order of the dict; the first
  entry whose comparison raises aborts it.
\<close>

fun keep_newer :: "instant \<Rightarrow> ledger \<Rightarrow> error + ledger" where
  "keep_newer cutoff [] = Inr []"
| "keep_newer cutoff ((url, timestamp) # rest) =
     (case newer_than cutoff timestamp of
        Inl e \<Rightarrow> Inl e
      | Inr keep \<Rightarrow>
          (case keep_newer cutoff rest of
             Inl e \<Rightarrow> Inl e
           | Inr kept \<Rightarrow> Inr (if keep then (url, timestamp) # kept else kept)))"

definition urls_to_keep :: "instant \<Rightarrow> ledger \<Rightarrow> error + ledger" where
  "urls_to_keep now processed_articles_history =
     keep_newer (cutoff_date now) processed_articles_history"

text \<open>An entry is fresh at a cutoff when it holds an offset-aware instant after the cutoff.\<close>

fun fresh :: "instant \<Rightarrow> string \<times> stamp \<Rightarrow> bool" where
  "fresh cutoff (url, Aware t) = (cutoff < t)"
| "fresh cutoff (url, _) = False"

fun is_aware :: "stamp \<Rightarrow> bool" where
  "is_aware (Aware t) = True"
| "is_aware _ = False"

section \<open>Retry loop of the external calls\<close>

text \<open>
  The five functions that call the external AI service (\<open>generate_axios_summary\<close> in
  daily\_report.py; \<open>analyze_content\<close>, \<open>generate_hedge_fund_takeaways\<close>,
  \<open>get_company_selections\<close> and \<open>generate_investment_memo\<close> in utility.py) build a prompt and
  then run the same loop:
  \<^verbatim>\<open>
    attempt = 0
    while attempt < max_retries:
        try:
            <call the service, post-process, return the result>
        except Exception as e:
            attempt += 1
            if attempt >= max_retries:
                <log>; return <sentinel>
            time.sleep((2 ** attempt) + random.uniform(0, 1))
    return <sentinel>
  \<close>
  The service is outside the program: \<open>body k\<close> is what the try block does when it is
  entered for the \<open>k\<close>-th time (counting from 0), \<open>None\<close> when it raises an \<open>Exception\<close>
  and \<open>Some r\<close> when it returns \<open>r\<close>. The loop returns its result, \<open>None\<close> for the
  sentinel, together with the number of times the try block was entered. The handler catches
  every \<open>Exception\<close>, so the loop has no exceptional exit.
\<close>

function retry_loop :: "(nat \<Rightarrow> 'r option) \<Rightarrow> int \<Rightarrow> int \<Rightarrow> nat \<Rightarrow> 'r option \<times> nat" where
  "retry_loop body max_retries attempt calls =
     (if attempt < max_retries then
        (case body calls of
           Some r \<Rightarrow> (Some r, Suc calls)
         | None \<Rightarrow>
             if attempt + 1 \<ge> max_retries then (None, Suc calls)
             else retry_loop body max_retries (attempt + 1) (Suc calls))
      else (None, calls))"
  by pat_completeness auto
termination
  by (relation "measure (\<lambda>(body, max_retries, attempt, calls). nat (max_retries - attempt))") auto

declare retry_loop.simps [simp del]

text \<open>JSON values, as \<open>json.loads\<close> returns them; Python's \<open>None\<close> is \<open>JNull\<close>.\<close>

datatype json =
    JNull
  | JBool bool
  | JNum rat
  | JStr string
  | JArr "json list"
  | JObj "(string \<times> json) list"

text \<open>\<open>d.get(key, default)\<close>: only a dict has the method.\<close>

fun dict_get :: "json \<Rightarrow> string \<Rightarrow> json \<Rightarrow> error + json" where
  "dict_get (JObj kvs) key dflt = Inr (case map_of kvs key of None \<Rightarrow> dflt | Some v \<Rightarrow> v)"
| "dict_get _ key dflt = Inl AttributeError"

text \<open>\<open>len(v)\<close> raises \<open>TypeError\<close> on \<open>None\<close>, booleans and numbers.\<close>

fun has_len :: "json \<Rightarrow> bool" where
  "has_len (JStr s) = True"
| "has_len (JArr xs) = True"
| "has_len (JObj kvs) = True"
| "has_len _ = False"

text \<open>
  \<open>generate_axios_summary\<close>, \<open>generate_hedge_fund_takeaways\<close> and
  \<open>generate_investment_memo\<close>: the try block returns \<open>response.text\<close>; \<open>generate_content k\<close> is
  that text at the \<open>k\<close>-th call, or \<open>None\<close> when the call or the access to the text raises.
\<close>

definition generate_axios_summary :: "(nat \<Rightarrow> string option) \<Rightarrow> int \<Rightarrow> string option \<times> nat" where
  "generate_axios_summary generate_content max_retries = retry_loop generate_content max_retries 0 0"

definition generate_hedge_fund_takeaways :: "(nat \<Rightarrow> string option) \<Rightarrow> int \<Rightarrow> string option \<times> nat" where
  "generate_hedge_fund_takeaways generate_content max_retries =
     retry_loop generate_content max_retries 0 0"

definition generate_investment_memo :: "(nat \<Rightarrow> string option) \<Rightarrow> int \<Rightarrow> string option \<times> nat" where
  "generate_investment_memo generate_content max_retries =
     retry_loop generate_content max_retries 0 0"

text \<open>
  \<open>analyze_content\<close>: the try block returns \<open>json.loads(cleaned_text)\<close>; \<open>loads k\<close> is that
  value at the \<open>k\<close>-th call, or \<open>None\<close> when the call or the parse raises. The sentinel is
  the dict \<open>{"sentiment": "Unknown", "entities": {}}\<close>.
\<close>

definition unknown_analysis :: json where
  "unknown_analysis = JObj [(''sentiment'', JStr ''Unknown''), (''entities'', JObj [])]"

definition analyze_content :: "(nat \<Rightarrow> json option) \<Rightarrow> int \<Rightarrow> json \<times> nat" where
  "analyze_content loads max_retries =
     (case retry_loop loads max_retries 0 0 of
        (Some data, calls) \<Rightarrow> (data, calls)
      | (None, calls) \<Rightarrow> (unknown_analysis, calls))"

text \<open>
  \<open>get_company_selections\<close>: the try block parses the response, logs
  \<open>len(data.get('companies', []))\<close> and returns \<open>data.get('companies')\<close>; a parsed value that is
  no dict, or a \<open>companies\<close> value without a length, raises inside the try block.
\<close>

definition companies_of :: "json \<Rightarrow> json option" where
  "companies_of data =
     (case dict_get data ''companies'' (JArr []) of
        Inl e \<Rightarrow> None
      | Inr listed \<Rightarrow>
          if has_len listed
          then (case dict_get data ''companies'' JNull of Inl e \<Rightarrow> None | Inr v \<Rightarrow> Some v)
          else None)"

definition get_company_selections :: "(nat \<Rightarrow> json option) \<Rightarrow> int \<Rightarrow> json \<times> nat" where
  "get_company_selections loads max_retries =
     (case retry_loop (\<lambda>k. case loads k of None \<Rightarrow> None | Some data \<Rightarrow> companies_of data)
             max_retries 0 0 of
        (Some companies, calls) \<Rightarrow> (companies, calls)
      | (None, calls) \<Rightarrow> (JNull, calls))"

section \<open>Enrichment of one candidate (daily\_report.py, process\_single\_article)\<close>

text \<open>
  The candidate dict built by the fetcher and the article dict built by
  \<open>process_single_article\<close> share five keys; each has a fixed set of keys, so they are records.
  \<open>generate_pdf\<close> later adds the key \<open>pdf_link\<close> to each article dict; \<open>None\<close> is its
  absence.
\<close>

record item =
  source :: string
  title :: string
  link :: string
  date :: string
  is_full_text :: bool

record candidate = item +
  summary_text :: string

record article = item +
  summary :: string
  sentiment :: json
  entities :: json
  pdf_link :: "int option"

text \<open>
  \<open>summarizer\<close> and \<open>classifier\<close> are the service's behaviour during the two calls made for
  this candidate. A summary that is \<open>None\<close> or empty gives no article. An exception in the
  body (the analysis is no dict, so it has no \<open>get\<close>) is caught and gives no article either.
\<close>

definition process_single_article ::
  "(nat \<Rightarrow> string option) \<Rightarrow> (nat \<Rightarrow> json option) \<Rightarrow> candidate \<Rightarrow> article option" where
  "process_single_article summarizer classifier article_details =
     (case fst (generate_axios_summary summarizer 3) of
        None \<Rightarrow> None
      | Some ai_summary \<Rightarrow>
          if ai_summary = [] then None
          else
            (let analysis_data = fst (analyze_content classifier 3) in
             case dict_get analysis_data ''sentiment'' (JStr ''Unknown'') of
               Inl e \<Rightarrow> None
             | Inr sentiment_value \<Rightarrow>
                 (case dict_get analysis_data ''entities'' (JObj []) of
                    Inl e \<Rightarrow> None
                  | Inr entities_value \<Rightarrow>
                      Some \<lparr>source = source article_details, title = title article_details,
                            link = link article_details, date = date article_details,
                            is_full_text = is_full_text article_details,
                            summary = ai_summary, sentiment = sentiment_value,
                            entities = entities_value, pdf_link = None\<rparr>)))"

section \<open>Feed fetcher (daily\_report.py, fetch\_news\_from\_sources)\<close>

text \<open>
  A feed entry exposes \<open>link\<close>, \<open>title\<close>, \<open>summary\<close> and \<open>published\<close>, each of which may
  be missing; the code reads them with \<open>entry.get(key, default)\<close>.
\<close>

record entry =
  entry_link :: "string option"
  entry_title :: "string option"
  entry_summary :: "string option"
  entry_published :: "string option"

record news_source =
  source_name :: string
  rss_url :: string

definition get_or :: "'a option \<Rightarrow> 'a \<Rightarrow> 'a" where
  "get_or field dflt = (case field of None \<Rightarrow> dflt | Some v \<Rightarrow> v)"

text \<open>The slice \<open>xs[:m]\<close>: a negative bound counts from the end.\<close>

definition slice_to :: "int \<Rightarrow> 'a list \<Rightarrow> 'a list" where
  "slice_to m xs = (if 0 \<le> m then take (nat m) xs else take (length xs - nat (- m)) xs)"

text \<open>
  Lines 128--142. \<open>downloaded\<close> is what \<open>Article(article_url).download(); parse()\<close> gives:
  \<open>Some text\<close> for \<open>article.text\<close>, \<open>None\<close> when it raises.
\<close>

definition text_for_summary :: "string \<Rightarrow> string option \<Rightarrow> string \<times> bool" where
  "text_for_summary rss_summary downloaded =
     (case downloaded of
        Some text \<Rightarrow>
          if text \<noteq> [] \<and> length text > length rss_summary then (text, True)
          else (rss_summary, False)
      | None \<Rightarrow> (rss_summary, False))"

text \<open>
  One iteration of the inner loop (lines 119--151): \<open>None\<close> when the entry is skipped,
  the candidate appended to \<open>all_articles\<close> otherwise. \<open>download\<close> is the network as the
  full-text extraction sees it, by URL.
\<close>

definition fetch_entry ::
  "(string \<Rightarrow> string option) \<Rightarrow> string set \<Rightarrow> string \<Rightarrow> entry \<Rightarrow> candidate option" where
  "fetch_entry download processed_urls src_name e =
     (let article_url = get_or (entry_link e) [] in
      if article_url \<in> processed_urls then None
      else
        (let rss_summary = get_or (entry_summary e) [] in
         if article_url = [] then None
         else
           (let (body, full) = text_for_summary rss_summary (download article_url) in
            if body \<noteq> [] \<and> length body > 100
            then Some \<lparr>source = src_name, title = get_or (entry_title e) ''No Title'',
                       link = article_url, date = get_or (entry_published e) [],
                       is_full_text = full, summary_text = body\<rparr>
            else None)))"

text \<open>
  The outer loop. \<open>feedparser_parse\<close> gives the entries of the feed at a URL, none when the
  feed cannot be fetched; a source without entries is passed over.
\<close>

definition fetch_news_from_sources ::
  "(string \<Rightarrow> entry list) \<Rightarrow> (string \<Rightarrow> string option) \<Rightarrow> news_source list \<Rightarrow> int
     \<Rightarrow> string set \<Rightarrow> candidate list" where
  "fetch_news_from_sources feedparser_parse download sources max_per_source processed_urls =
     concat (map (\<lambda>src. List.map_filter (fetch_entry download processed_urls (source_name src))
                           (slice_to max_per_source (feedparser_parse (rss_url src))))
                 sources)"

text \<open>
  A small world for concrete runs of the fetcher: one source whose feed has two entries, the
  first with a long inline summary and no downloadable text, the second with a short inline
  summary and a long downloadable text.
\<close>

definition example_feed :: "string \<Rightarrow> entry list" where
  "example_feed u =
     (if u = ''https://feed/a''
      then [\<lparr>entry_link = Some ''https://a/1'', entry_title = Some ''One'',
              entry_summary = Some (replicate 120 (CHR ''s'')), entry_published = None\<rparr>,
            \<lparr>entry_link = Some ''https://a/2'', entry_title = None,
              entry_summary = Some ''short'', entry_published = Some ''Mon''\<rparr>]
      else [])"

definition example_download :: "string \<Rightarrow> string option" where
  "example_download u = (if u = ''https://a/2'' then Some (replicate 500 (CHR ''f'')) else None)"

definition example_sources :: "news_source list" where
  "example_sources = [\<lparr>source_name = ''A Dive'', rss_url = ''https://feed/a''\<rparr>]"

section \<open>Archive store (utility.py, load\_archived\_news and cleanup\_old\_files)\<close>

text \<open>
  The archive directory holds one file \<open>news_YYYY-MM-DD.json\<close> per calendar day and
  possibly other files. \<open>strftime('%Y-%m-%d')\<close> is one-to-one on dates, so the archive file
  of a day is named by the number of that day. A file has a last-modified time in seconds (as
  \<open>os.path.getmtime\<close> and \<open>time.time\<close> count them), \<open>None\<close> when \<open>getmtime\<close> raises on
  it; \<open>removable\<close> tells whether \<open>os.remove\<close> succeeds on it; its content is what
  \<open>json.load\<close> followed by \<open>list.extend\<close> makes of it: the items it yields, or an exception.
\<close>

datatype filename = News int | Other string

datatype 'a content = Items "'a list" | Unreadable

record 'a archive_file =
  mtime :: "real option"
  removable :: bool
  content :: "'a content"

text \<open>A directory that exists is an association list from names to files; \<open>None\<close> is no directory.\<close>

type_synonym 'a directory = "(filename \<times> 'a archive_file) list"

definition daily_articles :: "'a directory option \<Rightarrow> int \<Rightarrow> 'a list" where
  "daily_articles data_dir target_date =
     (case data_dir of
        None \<Rightarrow> []
      | Some files \<Rightarrow>
          (case map_of files (News target_date) of
             None \<Rightarrow> []
           | Some f \<Rightarrow> (case content f of Items xs \<Rightarrow> xs | Unreadable \<Rightarrow> [])))"

text \<open>\<open>today\<close> is the current date in UTC, as a day number.\<close>

definition load_archived_news :: "int \<Rightarrow> 'a directory option \<Rightarrow> int \<Rightarrow> 'a list" where
  "load_archived_news today data_dir days_to_analyze =
     concat (map (\<lambda>i. daily_articles data_dir (today - int i)) [0..<nat days_to_analyze])"

text \<open>
  Lines 353--357 of daily\_report.py: create the directory if needed and write (or overwrite)
  the file of \<open>today_str\<close>, the current date in US/Eastern. The write is taken to succeed.
\<close>

definition write_archive :: "real \<Rightarrow> int \<Rightarrow> 'a list \<Rightarrow> 'a directory option \<Rightarrow> 'a directory option" where
  "write_archive now today_str summarized_articles data_dir =
     Some (AList.update (News today_str)
             \<lparr>mtime = Some now, removable = True, content = Items summarized_articles\<rparr>
             (case data_dir of None \<Rightarrow> [] | Some files \<Rightarrow> files))"

text \<open>
  The loop of \<open>cleanup_old_files\<close> over the names that \<open>os.listdir\<close> returned; an exception
  on one name is caught inside the loop body.
\<close>

fun sweep :: "real \<Rightarrow> filename list \<Rightarrow> 'a directory \<Rightarrow> nat \<Rightarrow> 'a directory \<times> nat" where
  "sweep cutoff [] files files_deleted = (files, files_deleted)"
| "sweep cutoff (name # rest) files files_deleted =
     (case map_of files name of
        None \<Rightarrow> sweep cutoff rest files files_deleted
      | Some f \<Rightarrow>
          (case mtime f of
             None \<Rightarrow> sweep cutoff rest files files_deleted
           | Some t \<Rightarrow>
               if t < cutoff then
                 (if removable f
                  then sweep cutoff rest (AList.delete name files) (Suc files_deleted)
                  else sweep cutoff rest files files_deleted)
               else sweep cutoff rest files files_deleted))"

definition cleanup_old_files :: "real \<Rightarrow> 'a directory option \<Rightarrow> int \<Rightarrow> 'a directory option \<times> nat" where
  "cleanup_old_files now directory days_to_keep =
     (case directory of
        None \<Rightarrow> (None, 0)
      | Some files \<Rightarrow>
          (let cutoff = now - real_of_int (days_to_keep * 86400);
               (files', files_deleted) = sweep cutoff (map fst files) files 0
           in (Some files', files_deleted)))"

text \<open>A file is due at a cutoff when the sweep can read its time, finds it older, and can remove it.\<close>

definition due :: "real \<Rightarrow> 'a archive_file \<Rightarrow> bool" where
  "due cutoff f = (case mtime f of None \<Rightarrow> False | Some t \<Rightarrow> t < cutoff \<and> removable f)"

section \<open>The daily run (daily\_report.py, run\_news\_report)\<close>

definition NEWS_SOURCES :: "news_source list" where
  "NEWS_SOURCES =
     [
      \<lparr>source_name = ''BioPharma Dive'', rss_url = ''https://www.biopharmadive.com/feeds/news/''\<rparr>,
      \<lparr>source_name = ''Automotive Dive'', rss_url = ''https://www.automotivedive.com/feeds/news/''\<rparr>,
      \<lparr>source_name = ''CFO Dive'', rss_url = ''https://www.cfodive.com/feeds/news/''\<rparr>,
      \<lparr>source_name = ''C-Store Dive'', rss_url = ''https://www.cstoredive.com/feeds/news/''\<rparr>,
      \<lparr>source_name = ''Banking Dive'', rss_url = ''https://www.bankingdive.com/feeds/news/''\<rparr>,
      \<lparr>source_name = ''CIO Dive'', rss_url = ''https://www.ciodive.com/feeds/news/''\<rparr>,
      \<lparr>source_name = ''CFO'', rss_url = ''https://www.cfo.com/feeds/news/''\<rparr>,
      \<lparr>source_name = ''Construction Dive'', rss_url = ''https://www.constructiondive.com/feeds/news/''\<rparr>,
      \<lparr>source_name = ''Cybersecurity Dive'', rss_url = ''https://www.cybersecuritydive.com/feeds/news/''\<rparr>,
      \<lparr>source_name = ''Education Dive'', rss_url = ''https://www.educationdive.com/feeds/news/''\<rparr>,
      \<lparr>source_name = ''Facilities Dive'', rss_url = ''https://www.facilitiesdive.com/feeds/news/''\<rparr>,
      \<lparr>source_name = ''Fashion Dive'', rss_url = ''https://www.fashiondive.com/feeds/news/''\<rparr>,
      \<lparr>source_name = ''Food Dive'', rss_url = ''https://www.fooddive.com/feeds/news/''\<rparr>,
      \<lparr>source_name = ''Grocery Dive'', rss_url = ''https://www.grocerydive.com/feeds/news/''\<rparr>,
      \<lparr>source_name = ''Healthcare Dive'', rss_url = ''https://www.healthcaredive.com/feeds/news/''\<rparr>,
      \<lparr>source_name = ''Hotel Dive'', rss_url = ''https://www.hoteldive.com/feeds/news/''\<rparr>,
      \<lparr>source_name = ''HR Dive'', rss_url = ''https://www.hrdive.com/feeds/news/''\<rparr>,
      \<lparr>source_name = ''K-12 Dive'', rss_url = ''https://www.k12dive.com/feeds/news/''\<rparr>,
      \<lparr>source_name = ''Legal Dive'', rss_url = ''https://www.legaldive.com/feeds/news/''\<rparr>,
      \<lparr>source_name = ''Manufacturing Dive'', rss_url = ''https://www.manufacturingdive.com/feeds/news/''\<rparr>,
      \<lparr>source_name = ''Marketing Dive'', rss_url = ''https://www.marketingdive.com/feeds/news/''\<rparr>,
      \<lparr>source_name = ''MedTech Dive'', rss_url = ''https://www.medtechdive.com/feeds/news/''\<rparr>,
      \<lparr>source_name = ''Multifamily Dive'', rss_url = ''https://www.multifamilydive.com/feeds/news/''\<rparr>,
      \<lparr>source_name = ''Packaging Dive'', rss_url = ''https://www.packagingdive.com/feeds/news/''\<rparr>,
      \<lparr>source_name = ''Payments Dive'', rss_url = ''https://www.paymentsdive.com/feeds/news/''\<rparr>,
      \<lparr>source_name = ''Restaurant Dive'', rss_url = ''https://www.restaurantdive.com/feeds/news/''\<rparr>,
      \<lparr>source_name = ''Retail Dive'', rss_url = ''https://www.retaildive.com/feeds/news/''\<rparr>,
      \<lparr>source_name = ''Smart Cities Dive'', rss_url = ''https://www.smartcitiesdive.com/feeds/news/''\<rparr>,
      \<lparr>source_name = ''Software Dive'', rss_url = ''https://www.softwaredive.com/feeds/news/''\<rparr>,
      \<lparr>source_name = ''Supply Chain Dive'', rss_url = ''https://www.supplychaindive.com/feeds/news/''\<rparr>,
      \<lparr>source_name = ''Pharma Voice'', rss_url = ''https://www.pharmavoice.com/feeds/news/''\<rparr>,
      \<lparr>source_name = ''Social Media Today'', rss_url = ''https://www.socialmediatoday.com/feeds/news/''\<rparr>,
      \<lparr>source_name = ''Trucking Dive'', rss_url = ''https://www.truckingdive.com/feeds/news/''\<rparr>,
      \<lparr>source_name = ''Transport Dive'', rss_url = ''https://www.transportdive.com/feeds/news/''\<rparr>,
      \<lparr>source_name = ''Utility Dive'', rss_url = ''https://www.utilitydive.com/feeds/news/''\<rparr>,
      \<lparr>source_name = ''Waste Dive'', rss_url = ''https://www.wastedive.com/feeds/news/''\<rparr>]"

text \<open>
  A directory for concrete runs: a file that cannot be removed, a file whose time cannot be
  read, the archive file of day 5 and the archive file of day 4, one day older.
\<close>

definition example_dir :: "nat directory" where
  "example_dir =
     [(Other ''locked.json'', \<lparr>mtime = Some 0, removable = False, content = Unreadable\<rparr>),
      (Other ''vanished.json'', \<lparr>mtime = None, removable = True, content = Unreadable\<rparr>),
      (News 5, \<lparr>mtime = Some 1000, removable = True, content = Items [1, 2]\<rparr>),
      (News 4, \<lparr>mtime = Some (-85400), removable = True, content = Items [3]\<rparr>)]"

text \<open>
  The state the run persists: the ledger file \<open>processed_urls.json\<close> and the archive
  directory. The ledger file is missing, or is no JSON, or holds a JSON object, or holds
  some other JSON value.
\<close>

datatype ledger_file = NoFile | NotJson | JsonDict ledger | JsonOther

record disk =
  processed_urls_file :: ledger_file
  daily_news_data :: "article directory option"

text \<open>
  What the run reads from outside: the clock when the cutoff is computed, the feeds and the
  full-text extraction, the AI service as each worker sees it (\<open>ai_summarizer env i k\<close> is
  the outcome of the \<open>k\<close>-th summarization attempt for the \<open>i\<close>-th candidate), the order
  in which the futures complete and the clock when each completed result is recorded, the
  takeaway service, the report stage (lines 337--347: render the PDF, mail it, remove it;
  \<open>None\<close> when it raises, otherwise the \<open>pdf_link\<close> it gave to each article), the
  US/Eastern date and the clock at the archive write, and the clock at the sweep.
\<close>

record env =
  clock_utc :: instant
  net_feeds :: "string \<Rightarrow> entry list"
  net_download :: "string \<Rightarrow> string option"
  ai_summarizer :: "nat \<Rightarrow> nat \<Rightarrow> string option"
  ai_classifier :: "nat \<Rightarrow> nat \<Rightarrow> json option"
  completion_order :: "nat list"
  completed_at :: "nat \<Rightarrow> instant"
  ai_takeaways :: "nat \<Rightarrow> string option"
  report_stage :: "article list \<Rightarrow> string \<Rightarrow> (nat \<Rightarrow> int) option"
  today_eastern :: int
  write_time :: real
  sweep_time :: real

datatype outcome = Returned | Raised error

text \<open>Lines 294--298; \<open>items()\<close> on a JSON value that is no dict raises at line 301.\<close>

definition load_history :: "ledger_file \<Rightarrow> error + ledger" where
  "load_history f =
     (case f of
        NoFile \<Rightarrow> Inr []
      | NotJson \<Rightarrow> Inr []
      | JsonDict history \<Rightarrow> Inr history
      | JsonOther \<Rightarrow> Inl AttributeError)"

text \<open>
  Lines 322--326: the results are taken in completion order; the \<open>k\<close>-th result taken, when
  it is an article, is appended to \<open>summarized_articles\<close> and its link is stamped in
  \<open>urls_to_keep\<close> with the time of that moment.
\<close>

fun as_completed_loop ::
  "env \<Rightarrow> candidate list \<Rightarrow> nat list \<Rightarrow> nat \<Rightarrow> article list \<times> ledger \<Rightarrow> article list \<times> ledger" where
  "as_completed_loop env cs [] k acc = acc"
| "as_completed_loop env cs (i # rest) k (summarized_articles, kept) =
     (case process_single_article (ai_summarizer env i) (ai_classifier env i) (cs ! i) of
        None \<Rightarrow> as_completed_loop env cs rest (Suc k) (summarized_articles, kept)
      | Some result \<Rightarrow>
          as_completed_loop env cs rest (Suc k)
            (summarized_articles @ [result],
             AList.update (link result) (Aware (completed_at env k)) kept))"

text \<open>
  Lines 320--326. Every candidate is submitted once and completes once; the environment
  gives the order, as positions in the candidate list, and positions outside the list are
  not futures of this run.
\<close>

definition enrich_all :: "env \<Rightarrow> candidate list \<Rightarrow> ledger \<Rightarrow> article list \<times> ledger" where
  "enrich_all env all_raw_articles kept =
     as_completed_loop env all_raw_articles
       (filter (\<lambda>i. i < length all_raw_articles) (completion_order env)) 0 ([], kept)"

definition add_pdf_links :: "(nat \<Rightarrow> int) \<Rightarrow> article list \<Rightarrow> article list" where
  "add_pdf_links links articles =
     map (\<lambda>(i, a). a\<lparr>pdf_link := Some (links i)\<rparr>) (enumerate 0 articles)"

text \<open>Lines 290--308: load the ledger, purge it, fetch.\<close>

definition fetched :: "env \<Rightarrow> disk \<Rightarrow> error + (ledger \<times> candidate list)" where
  "fetched env d =
     (case load_history (processed_urls_file d) of
        Inl e \<Rightarrow> Inl e
      | Inr history \<Rightarrow>
          (case urls_to_keep (clock_utc env) history of
             Inl e \<Rightarrow> Inl e
           | Inr kept \<Rightarrow>
               Inr (kept,
                    fetch_news_from_sources (net_feeds env) (net_download env) NEWS_SOURCES 10
                      (set (map fst kept)))))"

text \<open>
  The run, from the disk before it to the disk after it. An exception leaves the disk as it
  is at that moment. The writes of lines 311, 349 and 356 are taken to succeed.
\<close>

definition run_news_report :: "env \<Rightarrow> disk \<Rightarrow> disk \<times> outcome" where
  "run_news_report env d =
     (case fetched env d of
        Inl e \<Rightarrow> (d, Raised e)
      | Inr (kept, all_raw_articles) \<Rightarrow>
          if all_raw_articles = [] then (d\<lparr>processed_urls_file := JsonDict kept\<rparr>, Returned)
          else
            (let (summarized_articles, kept') = enrich_all env all_raw_articles kept in
             if summarized_articles = [] then (d, Returned)
             else
               (let investment_takeaways =
                      (case fst (generate_hedge_fund_takeaways (ai_takeaways env) 3) of
                         None \<Rightarrow> ''Takeaway generation failed.''
                       | Some t \<Rightarrow> if t = [] then ''Takeaway generation failed.'' else t)
                in case report_stage env summarized_articles investment_takeaways of
                     None \<Rightarrow> (d, Raised RenderError)
                   | Some links \<Rightarrow>
                       (let archived = add_pdf_links links summarized_articles;
                            d1 = d\<lparr>processed_urls_file := JsonDict kept'\<rparr>;
                            d2 = d1\<lparr>daily_news_data := write_archive (write_time env) (today_eastern env)
                                                   archived (daily_news_data d1)\<rparr>;
                            d3 = d2\<lparr>daily_news_data := fst (cleanup_old_files (sweep_time env)
                                                        (daily_news_data d2) 400)\<rparr>
                        in (d3, Returned)))))"

text \<open>
  A world for concrete runs. Two of the sources, CFO Dive and CFO, list the same article;
  CFO Dive lists a second one. No full text can be downloaded, so the three candidates carry
  their inline summaries. The summarization fails at every attempt for the first candidate
  and succeeds for the others; the futures complete in the order 2, 0, 1. The ledger file
  holds one entry past retention and one fresh entry, and there is no archive directory yet.
\<close>

definition example_env :: env where
  "example_env =
     \<lparr>clock_utc = 2000000000000,
      net_feeds = (\<lambda>u.
        if u = ''https://www.cfodive.com/feeds/news/''
        then [\<lparr>entry_link = Some ''https://www.cfo.com/news/rates'', entry_title = Some ''Rates'',
                entry_summary = Some (replicate 120 (CHR ''r'')), entry_published = Some ''Mon''\<rparr>,
              \<lparr>entry_link = Some ''https://www.cfo.com/news/audit'', entry_title = Some ''Audit'',
                entry_summary = Some (replicate 130 (CHR ''a'')), entry_published = Some ''Tue''\<rparr>]
        else if u = ''https://www.cfo.com/feeds/news/''
        then [\<lparr>entry_link = Some ''https://www.cfo.com/news/rates'', entry_title = Some ''Rates'',
                entry_summary = Some (replicate 120 (CHR ''r'')), entry_published = Some ''Mon''\<rparr>]
        else []),
      net_download = (\<lambda>u. None),
      ai_summarizer = (\<lambda>i k. if i = 0 then None else Some ''**Headline:** News''),
      ai_classifier = (\<lambda>i k. Some (JObj [(''sentiment'', JStr ''Neutral'')])),
      completion_order = [2, 0, 1],
      completed_at = (\<lambda>k. 2000000001000 + int k),
      ai_takeaways = (\<lambda>k. None),
      report_stage = (\<lambda>articles takeaways. Some (\<lambda>i. int i + 1)),
      today_eastern = 19000,
      write_time = 1641600000,
      sweep_time = 1641600060\<rparr>"

definition example_disk :: disk where
  "example_disk =
     \<lparr>processed_urls_file =
        JsonDict [(''https://old/1'', Aware 1), (''https://old/2'', Aware 1999999999999)],
      daily_news_data = None\<rparr>"

text \<open>The three candidates the fetcher returns in that world.\<close>

definition rates0 :: candidate where
  "rates0 =
     \<lparr>source = ''CFO Dive'', title = ''Rates'', link = ''https://www.cfo.com/news/rates'',
      date = ''Mon'', is_full_text = False, summary_text = replicate 120 (CHR ''r'')\<rparr>"
definition audit1 :: candidate where
  "audit1 =
     \<lparr>source = ''CFO Dive'', title = ''Audit'', link = ''https://www.cfo.com/news/audit'',
      date = ''Tue'', is_full_text = False, summary_text = replicate 130 (CHR ''a'')\<rparr>"
definition rates2 :: candidate where
  "rates2 =
     \<lparr>source = ''CFO'', title = ''Rates'', link = ''https://www.cfo.com/news/rates'',
      date = ''Mon'', is_full_text = False, summary_text = replicate 120 (CHR ''r'')\<rparr>"

section \<open>Weekly sentiment percentages (weekly\_report.py, analyze\_weekly\_trends, lines 22--29)\<close>

text \<open>
  The articles are the dicts loaded from the archive, JSON values. Line 22 reads each
  sentiment with \<open>article.get('sentiment', 'Unknown')\<close>, which raises on a value that is
  no dict.
\<close>

fun sentiments :: "json list \<Rightarrow> error + json list" where
  "sentiments [] = Inr []"
| "sentiments (a # rest) =
     (case dict_get a ''sentiment'' (JStr ''Unknown'') of
        Inl e \<Rightarrow> Inl e
      | Inr s \<Rightarrow> (case sentiments rest of Inl e \<Rightarrow> Inl e | Inr ss \<Rightarrow> Inr (s # ss)))"

text \<open>\<open>Counter(sentiments)\<close> hashes every element: a list or a dict raises \<open>TypeError\<close>.\<close>

fun hashable :: "json \<Rightarrow> bool" where
  "hashable (JArr xs) = False"
| "hashable (JObj kvs) = False"
| "hashable _ = True"

text \<open>Decimal digits of a natural number.\<close>

fun show_nat :: "nat \<Rightarrow> string" where
  "show_nat n =
     (if n < 10 then [''0123456789'' ! n] else show_nat (n div 10) @ [''0123456789'' ! (n mod 10)])"

declare show_nat.simps [simp del]

text \<open>
  \<open>f"{count / total_sentiments:.1%}"\<close> prints the quotient as a percentage rounded to one decimal.
  \<open>tenths_of_percent\<close> is that rounded number in tenths of a percent. Python takes the
  quotient and its product by 100 in binary floating point, whose error is far below the
  distance between \<open>1000 * count / total_sentiments\<close> and the nearest rounding boundary unless the
  exact value lies on a boundary; what it prints on a boundary depends on the floating-point
  value, so \<open>ties_up count total_sentiments\<close> says whether an exact tie is printed rounded up.
\<close>

definition tenths_of_percent :: "(nat \<Rightarrow> nat \<Rightarrow> bool) \<Rightarrow> nat \<Rightarrow> nat \<Rightarrow> nat" where
  "tenths_of_percent ties_up count total_sentiments =
     (let q = (1000 * count) div total_sentiments; r = (1000 * count) mod total_sentiments in
      if 2 * r < total_sentiments then q
      else if total_sentiments < 2 * r then q + 1
      else if ties_up count total_sentiments then q + 1 else q)"

definition percent_1 :: "(nat \<Rightarrow> nat \<Rightarrow> bool) \<Rightarrow> nat \<Rightarrow> nat \<Rightarrow> string" where
  "percent_1 ties_up count total_sentiments =
     (let m = tenths_of_percent ties_up count total_sentiments in
      show_nat (m div 10) @ ''.'' @ show_nat (m mod 10) @ ''%'')"

text \<open>
  Lines 22--29. \<open>sentiment_counts.get(s, 0)\<close> is the number of elements equal to the
  string \<open>s\<close>, and \<open>total_sentiments\<close>, the sum of all counts, is the number of elements.
\<close>

definition sentiment_summary ::
  "(nat \<Rightarrow> nat \<Rightarrow> bool) \<Rightarrow> json list \<Rightarrow> error + (string \<times> string) list" where
  "sentiment_summary ties_up articles =
     (case sentiments articles of
        Inl e \<Rightarrow> Inl e
      | Inr ss \<Rightarrow>
          if \<not> list_all hashable ss then Inl TypeError
          else
            (let total_sentiments = length ss;
                 shown = (\<lambda>s. if total_sentiments \<noteq> 0
                               then percent_1 ties_up (count_list ss (JStr s)) total_sentiments
                               else ''0%'')
             in Inr [(''Positive'', shown ''Positive''), (''Negative'', shown ''Negative''),
                     (''Neutral'', shown ''Neutral'')]))"

text \<open>An archived article reduced to its sentiment, for concrete inputs.\<close>

definition with_sentiment :: "string \<Rightarrow> json" where
  "with_sentiment s = JObj [(''title'', JStr ''t''), (''sentiment'', JStr s)]"

section \<open>Properties of the ledger purge\<close>

lemma keep_newer_aware:
  "list_all (\<lambda>e. is_aware (snd e)) hist \<Longrightarrow> keep_newer cutoff hist = Inr (filter (fresh cutoff) hist)"
proof (induction hist)
  case Nil
  then show ?case by simp
next
  case (Cons e hist)
  obtain url ts where e: "e = (url, ts)" by (cases e)
  from Cons.prems obtain t where ts: "ts = Aware t" by (cases ts) (auto simp: e)
  from Cons have "keep_newer cutoff hist = Inr (filter (fresh cutoff) hist)" by simp
  then show ?case by (simp add: e ts)
qed

text \<open>
  Claim C1, as the code has it: when every stored value is an offset-aware ISO timestamp, the
  purge succeeds, its result is a function of the mapping and of \<open>now\<close> alone, it keeps the
  entries in their order, and it keeps exactly the entries whose timestamp is strictly after
  \<open>now - 14 days\<close>: an entry whose timestamp is at or before that instant is removed.
\<close>

theorem purge_keeps_strictly_newer:
  assumes "list_all (\<lambda>e. is_aware (snd e)) hist"
  shows "\<exists>kept. urls_to_keep now hist = Inr kept
           \<and> subseq kept hist
           \<and> set kept = {(url, Aware t) | url t. (url, Aware t) \<in> set hist \<and> \<not> t \<le> now - 14 * 86400 * 1000000}"
proof -
  let ?c = "cutoff_date now"
  have k: "urls_to_keep now hist = Inr (filter (fresh ?c) hist)"
    using assms by (simp add: urls_to_keep_def keep_newer_aware)
  have c: "?c = now - 14 * 86400 * 1000000"
    by (simp add: cutoff_date_def timedelta_days_def RETENTION_DAYS_def)
  have "set (filter (fresh ?c) hist) = {(url, Aware t) | url t. (url, Aware t) \<in> set hist \<and> \<not> t \<le> ?c}"
  proof (intro set_eqI iffI)
    fix e assume a: "e \<in> set (filter (fresh ?c) hist)"
    obtain url ts where e: "e = (url, ts)" by (cases e)
    from a obtain t where "ts = Aware t" "?c < t" by (cases ts) (auto simp: e)
    with a show "e \<in> {(url, Aware t) | url t. (url, Aware t) \<in> set hist \<and> \<not> t \<le> ?c}"
      by (auto simp: e)
  next
    fix e assume "e \<in> {(url, Aware t) | url t. (url, Aware t) \<in> set hist \<and> \<not> t \<le> ?c}"
    then show "e \<in> set (filter (fresh ?c) hist)" by auto
  qed
  with k c show ?thesis by simp
qed

theorem purge_keeps_strictly_newer_witness:
  "\<exists>kept. urls_to_keep 2000000000000
             [(''https://a/1'', Aware 790399999999), (''https://a/2'', Aware 790400000000),
              (''https://a/3'', Aware 790400000001)] = Inr kept
         \<and> kept = [(''https://a/3'', Aware 790400000001)]"
  using purge_keeps_strictly_newer
    [of "[(''https://a/1'', Aware 790399999999), (''https://a/2'', Aware 790400000000),
          (''https://a/3'', Aware 790400000001)]" 2000000000000]
  by (simp add: urls_to_keep_def cutoff_date_def timedelta_days_def RETENTION_DAYS_def)

text \<open>
  The claim as written keeps an entry whose timestamp equals \<open>now - 14 days\<close>. The code
  removes it: with \<open>now\<close> = 14 days after instant 0, the entry stamped 0 is dropped.
\<close>

theorem purge_boundary_counterexample:
  "cutoff_date 1209600000000 = 0
   \<and> urls_to_keep 1209600000000 [(''https://a/1'', Aware 0)] = Inr []"
  by (simp add: urls_to_keep_def cutoff_date_def timedelta_days_def RETENTION_DAYS_def)

section \<open>Properties of the retry loop\<close>

lemma retry_loop_all_fail:
  "(\<And>k. body k = None) \<Longrightarrow>
     retry_loop body max_retries attempt calls = (None, calls + nat (max_retries - attempt))"
proof (induction body max_retries attempt calls rule: retry_loop.induct)
  case (1 body max_retries attempt calls)
  show ?case
  proof (cases "attempt < max_retries")
    case False
    then show ?thesis by (simp add: retry_loop.simps [of body max_retries attempt calls])
  next
    case True
    note lt = this
    have none: "body calls = None" by (rule "1.prems")
    show ?thesis
    proof (cases "attempt + 1 \<ge> max_retries")
      case True
      with lt have "nat (max_retries - attempt) = 1" by simp
      with lt True none show ?thesis
        by (simp add: retry_loop.simps [of body max_retries attempt calls])
    next
      case False
      with lt none have
        "retry_loop body max_retries (attempt + 1) (Suc calls)
           = (None, Suc calls + nat (max_retries - (attempt + 1)))"
        by (intro "1.IH" "1.prems") auto
      moreover from lt have "Suc (nat (max_retries - (attempt + 1))) = nat (max_retries - attempt)"
        by simp
      ultimately show ?thesis using lt False none
        by (simp add: retry_loop.simps [of body max_retries attempt calls])
    qed
  qed
qed

lemma retry_loop_calls_bound:
  "snd (retry_loop body max_retries attempt calls) \<le> calls + nat (max_retries - attempt)"
proof (induction body max_retries attempt calls rule: retry_loop.induct)
  case (1 body max_retries attempt calls)
  show ?case
  proof (cases "attempt < max_retries")
    case False
    then show ?thesis by (simp add: retry_loop.simps [of body max_retries attempt calls])
  next
    case True
    note lt = this
    show ?thesis
    proof (cases "body calls")
      case (Some r)
      with lt show ?thesis by (simp add: retry_loop.simps [of body max_retries attempt calls])
    next
      case None
      show ?thesis
      proof (cases "attempt + 1 \<ge> max_retries")
        case True
        with lt None show ?thesis
          by (simp add: retry_loop.simps [of body max_retries attempt calls])
      next
        case False
        with lt None have
          "snd (retry_loop body max_retries (attempt + 1) (Suc calls))
             \<le> Suc calls + nat (max_retries - (attempt + 1))"
          by (intro "1.IH") auto
        moreover from lt have
          "Suc (nat (max_retries - (attempt + 1))) = nat (max_retries - attempt)" by simp
        ultimately show ?thesis using lt False None
          by (simp add: retry_loop.simps [of body max_retries attempt calls])
      qed
    qed
  qed
qed

text \<open>
  Claim C3: when the service fails at every invocation, each of the five calls enters its
  try block exactly \<open>max_retries\<close> times and returns its sentinel: \<open>None\<close> for the
  summary, the takeaways, the memo and the company selection, the \<open>Unknown\<close> dict for the
  classification. The results are plain values: the loop has no exceptional exit.
\<close>

theorem retry_bound_and_sentinel:
  assumes "0 \<le> max_retries"
    and "\<And>k. text_service k = None"
    and "\<And>k. json_service k = None"
  shows "generate_axios_summary text_service max_retries = (None, nat max_retries)
       \<and> generate_hedge_fund_takeaways text_service max_retries = (None, nat max_retries)
       \<and> generate_investment_memo text_service max_retries = (None, nat max_retries)
       \<and> get_company_selections json_service max_retries = (JNull, nat max_retries)
       \<and> analyze_content json_service max_retries
           = (JObj [(''sentiment'', JStr ''Unknown''), (''entities'', JObj [])], nat max_retries)
       \<and> int (nat max_retries) = max_retries"
proof -
  have t: "retry_loop text_service max_retries 0 0 = (None, nat max_retries)"
    using retry_loop_all_fail [of text_service max_retries 0 0] assms(2) by simp
  have j: "retry_loop json_service max_retries 0 0 = (None, nat max_retries)"
    using retry_loop_all_fail [of json_service max_retries 0 0] assms(3) by simp
  have c: "retry_loop (\<lambda>k. case json_service k of None \<Rightarrow> None | Some data \<Rightarrow> companies_of data)
             max_retries 0 0 = (None, nat max_retries)"
    using retry_loop_all_fail
      [of "\<lambda>k. case json_service k of None \<Rightarrow> None | Some data \<Rightarrow> companies_of data" max_retries 0 0]
      assms(3) by simp
  from t j c assms(1) show ?thesis
    by (simp add: generate_axios_summary_def generate_hedge_fund_takeaways_def
        generate_investment_memo_def get_company_selections_def analyze_content_def
        unknown_analysis_def)
qed

theorem retry_bound_and_sentinel_witness:
  "generate_axios_summary (\<lambda>k. None) 3 = (None, 3)
   \<and> generate_hedge_fund_takeaways (\<lambda>k. None) 3 = (None, 3)
   \<and> generate_investment_memo (\<lambda>k. None) 3 = (None, 3)
   \<and> get_company_selections (\<lambda>k. None) 3 = (JNull, 3)
   \<and> analyze_content (\<lambda>k. None) 3
       = (JObj [(''sentiment'', JStr ''Unknown''), (''entities'', JObj [])], 3)"
  using retry_bound_and_sentinel [of 3 "\<lambda>k. None" "\<lambda>k. None"] by simp

text \<open>Whatever the service does, no call enters its try block more than \<open>max_retries\<close> times.\<close>

lemma attempts_never_more:
  "snd (generate_axios_summary text_service max_retries) \<le> nat max_retries"
  "snd (generate_hedge_fund_takeaways text_service max_retries) \<le> nat max_retries"
  "snd (generate_investment_memo text_service max_retries) \<le> nat max_retries"
  using retry_loop_calls_bound [of text_service max_retries 0 0]
  by (simp_all add: generate_axios_summary_def generate_hedge_fund_takeaways_def
      generate_investment_memo_def)

section \<open>Properties of the enrichment of one candidate\<close>

lemma analyze_content_all_fail:
  "(\<And>k. classifier k = None) \<Longrightarrow> fst (analyze_content classifier 3) = unknown_analysis"
  using retry_loop_all_fail [of classifier 3 0 0] by (simp add: analyze_content_def)

text \<open>
  Claim C5: when the summarization call returns a summary (which the code requires to be
  non-empty) and the classification service fails at every invocation, the candidate still
  gives an article, with sentiment \<open>"Unknown"\<close>, entities the empty dict, and the
  candidate's own source, title, link, date and full-text flag.
\<close>

theorem classification_failure_default:
  assumes "fst (generate_axios_summary summarizer 3) = Some ai_summary"
    and "ai_summary \<noteq> []"
    and "\<And>k. classifier k = None"
  shows "process_single_article summarizer classifier article_details =
           Some \<lparr>source = source article_details, title = title article_details,
                 link = link article_details, date = date article_details,
                 is_full_text = is_full_text article_details,
                 summary = ai_summary, sentiment = JStr ''Unknown'', entities = JObj [],
                 pdf_link = None\<rparr>"
  using assms(1,2) analyze_content_all_fail [of classifier, OF assms(3)]
  by (simp add: process_single_article_def unknown_analysis_def)

theorem classification_failure_default_witness:
  "process_single_article (\<lambda>k. if k = 1 then Some ''**Headline:** Rates hold'' else None)
       (\<lambda>k. None)
       \<lparr>source = ''CFO Dive'', title = ''Rates'', link = ''https://a/1'', date = ''Mon'',
        is_full_text = True, summary_text = ''body''\<rparr>
     = Some \<lparr>source = ''CFO Dive'', title = ''Rates'', link = ''https://a/1'', date = ''Mon'',
             is_full_text = True, summary = ''**Headline:** Rates hold'',
             sentiment = JStr ''Unknown'', entities = JObj [], pdf_link = None\<rparr>"
  using classification_failure_default
    [of "\<lambda>k. if k = 1 then Some ''**Headline:** Rates hold'' else None"
        "''**Headline:** Rates hold''" "\<lambda>k. None"
        "\<lparr>source = ''CFO Dive'', title = ''Rates'', link = ''https://a/1'', date = ''Mon'',
          is_full_text = True, summary_text = ''body''\<rparr>"]
  by (simp add: generate_axios_summary_def retry_loop.simps)

section \<open>Properties of the feed fetcher\<close>

lemma set_map_filter_iff:
  "y \<in> set (List.map_filter f xs) \<longleftrightarrow> (\<exists>x \<in> set xs. f x = Some y)"
  by (induction xs) (auto split: option.splits)

lemma map_filter_empty_iff:
  "List.map_filter f xs = [] \<longleftrightarrow> (\<forall>x \<in> set xs. f x = None)"
  by (induction xs) (auto split: option.splits)

lemma fetch_news_from_sources_mem:
  "c \<in> set (fetch_news_from_sources feedparser_parse download sources m processed) \<longleftrightarrow>
     (\<exists>src e. src \<in> set sources \<and> e \<in> set (slice_to m (feedparser_parse (rss_url src)))
        \<and> fetch_entry download processed (source_name src) e = Some c)"
  by (auto simp: fetch_news_from_sources_def set_map_filter_iff)

lemma fetch_news_from_sources_empty:
  "fetch_news_from_sources feedparser_parse download sources m processed = [] \<longleftrightarrow>
     (\<forall>src e. src \<in> set sources \<and> e \<in> set (slice_to m (feedparser_parse (rss_url src)))
        \<longrightarrow> fetch_entry download processed (source_name src) e = None)"
  by (auto simp: fetch_news_from_sources_def map_filter_empty_iff)

lemma fetch_entry_Some:
  assumes "fetch_entry download processed src_name e = Some c"
  shows "entry_link e = Some (link c)" and "link c \<noteq> []" and "link c \<notin> processed"
    and "source c = src_name"
    and "(summary_text c, is_full_text c)
           = text_for_summary (get_or (entry_summary e) []) (download (link c))"
    and "length (summary_text c) > 100"
  using assms
  by (auto simp: fetch_entry_def Let_def get_or_def split: if_splits option.splits prod.splits)

text \<open>
  Claim C6: every candidate the fetcher returns comes from an entry of one of the sources,
  carries that entry's link, and its text is resolved by the fallback policy: when the
  extraction for that link succeeded with a text strictly longer than the entry's inline
  summary, the candidate holds the extracted text and \<open>is_full_text\<close> is true; in every
  other case (the extraction raised, or its text is empty or not longer than the inline
  summary) it holds the inline summary and \<open>is_full_text\<close> is false.
\<close>

theorem full_text_fallback_policy:
  assumes "c \<in> set (fetch_news_from_sources feedparser_parse download sources m processed)"
  shows "\<exists>src e. src \<in> set sources \<and> e \<in> set (slice_to m (feedparser_parse (rss_url src)))
           \<and> entry_link e = Some (link c)
           \<and> (case download (link c) of
                 Some text \<Rightarrow>
                   if length text > length (get_or (entry_summary e) [])
                   then summary_text c = text \<and> is_full_text c
                   else summary_text c = get_or (entry_summary e) [] \<and> \<not> is_full_text c
               | None \<Rightarrow> summary_text c = get_or (entry_summary e) [] \<and> \<not> is_full_text c)"
proof -
  from assms obtain src e where se: "src \<in> set sources"
      "e \<in> set (slice_to m (feedparser_parse (rss_url src)))"
      "fetch_entry download processed (source_name src) e = Some c"
    unfolding fetch_news_from_sources_mem by blast
  note f = fetch_entry_Some [OF se(3)]
  have "case download (link c) of
          Some text \<Rightarrow>
            if length text > length (get_or (entry_summary e) [])
            then summary_text c = text \<and> is_full_text c
            else summary_text c = get_or (entry_summary e) [] \<and> \<not> is_full_text c
        | None \<Rightarrow> summary_text c = get_or (entry_summary e) [] \<and> \<not> is_full_text c"
    using f(5) by (auto simp: text_for_summary_def split: option.splits if_splits)
  with se(1,2) f(1) show ?thesis by blast
qed

lemmas fetch_eval =
  fetch_news_from_sources_def fetch_entry_def text_for_summary_def get_or_def slice_to_def
  example_feed_def example_download_def example_sources_def

theorem full_text_fallback_policy_witness:
  "\<lparr>source = ''A Dive'', title = ''No Title'', link = ''https://a/2'', date = ''Mon'',
     is_full_text = True, summary_text = replicate 500 (CHR ''f'')\<rparr>
     \<in> set (fetch_news_from_sources example_feed example_download example_sources 10 {})
   \<and> \<lparr>source = ''A Dive'', title = ''One'', link = ''https://a/1'', date = [],
       is_full_text = False, summary_text = replicate 120 (CHR ''s'')\<rparr>
     \<in> set (fetch_news_from_sources example_feed example_download example_sources 10 {})"
  using full_text_fallback_policy
    [of "\<lparr>source = ''A Dive'', title = ''No Title'', link = ''https://a/2'', date = ''Mon'',
           is_full_text = True, summary_text = replicate 500 (CHR ''f'')\<rparr>"
        example_feed example_download example_sources 10 "{}"]
  by (simp add: fetch_eval)

lemma fetch_entry_processed:
  "fetch_entry download processed src_name e =
     (if get_or (entry_link e) [] \<in> processed then None else fetch_entry download {} src_name e)"
  by (simp add: fetch_entry_def Let_def)

text \<open>
  Claim C7, as the code has it: the fetcher returns no entry whose link is empty or in the
  already-processed set; and a second run over the same feeds and the same extraction
  outcomes, with an already-processed set that contains the first run's already-processed
  set and every URL the first run returned, returns no candidate.
\<close>

theorem dedup_idempotence:
  assumes "P1 \<subseteq> P2"
    and "link ` set (fetch_news_from_sources feedparser_parse download sources m P1) \<subseteq> P2"
  shows "fetch_news_from_sources feedparser_parse download sources m P2 = []
       \<and> (\<forall>c \<in> set (fetch_news_from_sources feedparser_parse download sources m P1).
             link c \<noteq> [] \<and> link c \<notin> P1)"
proof
  show "fetch_news_from_sources feedparser_parse download sources m P2 = []"
    unfolding fetch_news_from_sources_empty
  proof (intro allI impI)
    fix src e
    assume a: "src \<in> set sources \<and> e \<in> set (slice_to m (feedparser_parse (rss_url src)))"
    show "fetch_entry download P2 (source_name src) e = None"
    proof (cases "fetch_entry download P1 (source_name src) e")
      case None
      then show ?thesis using assms(1)
        by (auto simp: fetch_entry_processed [of download P1] fetch_entry_processed [of download P2]
            split: if_splits)
    next
      case (Some c)
      with a have "c \<in> set (fetch_news_from_sources feedparser_parse download sources m P1)"
        unfolding fetch_news_from_sources_mem by blast
      with assms(2) have "link c \<in> P2" by blast
      moreover from fetch_entry_Some(1) [OF Some] have "get_or (entry_link e) [] = link c"
        by (simp add: get_or_def)
      ultimately show ?thesis by (simp add: fetch_entry_processed [of download P2])
    qed
  qed
  show "\<forall>c \<in> set (fetch_news_from_sources feedparser_parse download sources m P1).
           link c \<noteq> [] \<and> link c \<notin> P1"
    using fetch_entry_Some(2,3) by (auto simp: fetch_news_from_sources_mem)
qed

theorem dedup_idempotence_witness:
  "fetch_news_from_sources example_feed example_download example_sources 10 {''https://old/0''}
     \<noteq> []
   \<and> fetch_news_from_sources example_feed example_download example_sources 10
       {''https://old/0'', ''https://a/1'', ''https://a/2''} = []"
  using dedup_idempotence
    [of "{''https://old/0''}" "{''https://old/0'', ''https://a/1'', ''https://a/2''}"
        example_feed example_download example_sources 10]
  by (simp add: fetch_eval)

text \<open>
  The claim as written asks only that the second already-processed set contain the URLs the
  first run returned. That is not enough: the first run, told that \<open>https://a/1\<close> is
  processed, returns \<open>https://a/2\<close> alone; the second run, told that \<open>https://a/2\<close>
  is processed, returns \<open>https://a/1\<close>.
\<close>

theorem dedup_idempotence_counterexample:
  "link ` set (fetch_news_from_sources example_feed example_download example_sources 10
                 {''https://a/1''}) \<subseteq> {''https://a/2''}
   \<and> map link (fetch_news_from_sources example_feed example_download example_sources 10
                 {''https://a/2''}) = [''https://a/1'']"
  by (simp add: fetch_eval)

section \<open>Properties of the eviction sweep\<close>

lemma sweep_map_of:
  "map_of (fst (sweep cutoff names files n)) x =
     (if x \<in> set names
      then (case map_of files x of None \<Rightarrow> None | Some f \<Rightarrow> if due cutoff f then None else Some f)
      else map_of files x)"
proof (induction names arbitrary: files n)
  case Nil
  then show ?case by simp
next
  case (Cons name rest)
  show ?case
  proof (cases "map_of files name")
    case None
    then show ?thesis using Cons.IH [of files n] by (auto split: option.splits)
  next
    case (Some f)
    show ?thesis
    proof (cases "due cutoff f")
      case True
      then obtain t where t: "mtime f = Some t" "t < cutoff" "removable f"
        by (auto simp: due_def split: option.splits)
      have "map_of (fst (sweep cutoff (name # rest) files n)) x
              = map_of (fst (sweep cutoff rest (AList.delete name files) (Suc n))) x"
        using Some t by simp
      also have "\<dots> = (if x \<in> set (name # rest)
          then (case map_of files x of None \<Rightarrow> None | Some f \<Rightarrow> if due cutoff f then None else Some f)
          else map_of files x)"
        using Some True by (simp add: Cons.IH delete_conv')
      finally show ?thesis .
    next
      case False
      then have "sweep cutoff (name # rest) files n = sweep cutoff rest files n"
        using Some by (auto simp: due_def split: option.splits)
      then show ?thesis using Some False Cons.IH [of files n] by auto
    qed
  qed
qed

text \<open>
  Claim C8: for every file of the directory the sweep deletes it exactly when its
  last-modified time is strictly older than \<open>now - days_to_keep * 86400\<close> (and the time
  can be read and the file removed): a file exactly at the horizon is kept, one a day older
  is deleted. Nothing is asked of the other files: a failure while examining or deleting one
  of them is contained in its own iteration, and a file that is kept is unchanged.
\<close>

theorem eviction_boundary:
  assumes "map_of files name = Some f"
  shows "\<exists>files' files_deleted.
           cleanup_old_files now (Some files) days_to_keep = (Some files', files_deleted)
         \<and> (map_of files' name = None \<longleftrightarrow>
              (\<exists>t. mtime f = Some t \<and> t < now - real_of_int (days_to_keep * 86400) \<and> removable f))
         \<and> (map_of files' name = None \<or> map_of files' name = Some f)"
proof -
  let ?cutoff = "now - real_of_int (days_to_keep * 86400)"
  let ?r = "sweep ?cutoff (map fst files) files 0"
  have c: "cleanup_old_files now (Some files) days_to_keep = (Some (fst ?r), snd ?r)"
    by (simp add: cleanup_old_files_def Let_def split: prod.splits)
  from assms have "name \<in> set (map fst files)"
    by (metis map_of_eq_None_iff option.distinct(1) set_map)
  then have m: "map_of (fst ?r) name = (if due ?cutoff f then None else Some f)"
    using assms by (simp add: sweep_map_of)
  have d: "due ?cutoff f \<longleftrightarrow> (\<exists>t. mtime f = Some t \<and> t < ?cutoff \<and> removable f)"
    by (auto simp: due_def split: option.splits)
  from c m d show ?thesis by auto
qed

theorem eviction_boundary_witness:
  "cleanup_old_files 34561000 (Some example_dir) 400 =
     (Some [(Other ''locked.json'', \<lparr>mtime = Some 0, removable = False, content = Unreadable\<rparr>),
            (Other ''vanished.json'', \<lparr>mtime = None, removable = True, content = Unreadable\<rparr>),
            (News 5, \<lparr>mtime = Some 1000, removable = True, content = Items [1, 2]\<rparr>)], 1)"
  using eviction_boundary [of example_dir "News 5"
      "\<lparr>mtime = Some 1000, removable = True, content = Items [1, 2]\<rparr>" 34561000 400]
  by (simp add: example_dir_def cleanup_old_files_def AList.delete_eq)

section \<open>Properties of the archive round trip\<close>

lemma daily_articles_written:
  "daily_articles (write_archive now D recs data_dir) D = recs"
  by (simp add: daily_articles_def write_archive_def update_conv')

text \<open>
  Claim C2: after a run has written the list \<open>recs\<close> as the archive file of day \<open>D\<close>, a
  load of \<open>days_to_analyze\<close> days back from \<open>today\<close> (the UTC date at the time of the
  load) whose range includes \<open>D\<close> returns a list that contains \<open>recs\<close>, element for
  element and in order, between the records of the newer and of the older days.
\<close>

theorem archive_round_trip:
  assumes "0 \<le> today - D" and "today - D < days_to_analyze"
  shows "\<exists>newer older.
           load_archived_news today (write_archive now D recs data_dir) days_to_analyze
             = newer @ recs @ older"
proof -
  let ?dir = "write_archive now D recs data_dir"
  let ?g = "\<lambda>i. daily_articles ?dir (today - int i)"
  let ?k = "nat (today - D)"
  from assms have k: "?k < nat days_to_analyze" by simp
  then have "[0..<nat days_to_analyze] = [0..<?k] @ ?k # [Suc ?k..<nat days_to_analyze]"
    by (metis le0 upt_conv_Cons upt_add_eq_append le_add_diff_inverse less_imp_le_nat add_0)
  then have "load_archived_news today ?dir days_to_analyze
      = concat (map ?g [0..<?k]) @ ?g ?k @ concat (map ?g [Suc ?k..<nat days_to_analyze])"
    by (simp add: load_archived_news_def)
  moreover from assms(1) have "?g ?k = recs" by (simp add: daily_articles_written)
  ultimately have "load_archived_news today ?dir days_to_analyze
      = concat (map ?g [0..<?k]) @ recs @ concat (map ?g [Suc ?k..<nat days_to_analyze])"
    by simp
  then show ?thesis by blast
qed

theorem archive_round_trip_witness:
  "load_archived_news 6 (write_archive 34561000 5 [7, 8, 9] (Some example_dir)) 7
     = [7, 8, 9] @ [3::nat]"
  using archive_round_trip [of 6 5 7 34561000 "[7, 8, 9]" "Some example_dir"]
  by (simp add: load_archived_news_def daily_articles_def write_archive_def example_dir_def
      upt_rec)

section \<open>Properties of the daily run\<close>

lemmas run_eval = fetched_def load_history_def urls_to_keep_def cutoff_date_def timedelta_days_def
  RETENTION_DAYS_def NEWS_SOURCES_def fetch_eval example_env_def example_disk_def




lemma process_single_article_no_summary:
  "fst (generate_axios_summary summarizer 3) = None \<Longrightarrow>
     process_single_article summarizer classifier article_details = None"
  by (simp add: process_single_article_def)

lemma process_single_article_link:
  "process_single_article summarizer classifier article_details = Some a \<Longrightarrow>
     link a = link article_details"
  by (auto simp: process_single_article_def Let_def split: option.splits if_splits sum.splits)

lemma as_completed_loop_all_none:
  "(\<And>i. i \<in> set order \<Longrightarrow>
        process_single_article (ai_summarizer env i) (ai_classifier env i) (cs ! i) = None) \<Longrightarrow>
     as_completed_loop env cs order k acc = acc"
proof (induction order arbitrary: k acc)
  case Nil
  then show ?case by simp
next
  case (Cons i rest)
  obtain s kept where acc: "acc = (s, kept)" by (cases acc)
  from Cons.prems have "process_single_article (ai_summarizer env i) (ai_classifier env i) (cs ! i) = None"
    by simp
  moreover have "as_completed_loop env cs rest (Suc k) acc = acc"
    using Cons.prems by (intro Cons.IH) simp
  ultimately show ?case by (simp add: acc)
qed

lemma as_completed_loop_other_url:
  "\<forall>i \<in> set order. \<forall>a.
        process_single_article (ai_summarizer env i) (ai_classifier env i) (cs ! i) = Some a
          \<longrightarrow> link a \<noteq> u \<Longrightarrow>
   map_of (snd (as_completed_loop env cs order k (s, kept))) u = map_of kept u
       \<and> (u \<in> link ` set (fst (as_completed_loop env cs order k (s, kept))) \<longleftrightarrow> u \<in> link ` set s)"
proof (induction order arbitrary: k s kept)
  case Nil
  then show ?case by simp
next
  case (Cons i rest)
  from Cons.prems have rest: "\<forall>i \<in> set rest. \<forall>a.
        process_single_article (ai_summarizer env i) (ai_classifier env i) (cs ! i) = Some a
          \<longrightarrow> link a \<noteq> u"
    by simp
  show ?case
  proof (cases "process_single_article (ai_summarizer env i) (ai_classifier env i) (cs ! i)")
    case None
    with Cons.IH [OF rest, of "Suc k" s kept] show ?thesis by simp
  next
    case (Some a)
    with Cons.prems have ne: "link a \<noteq> u" by simp
    from Cons.IH [OF rest, of "Suc k" "s @ [a]"
        "AList.update (link a) (Aware (completed_at env k)) kept"] Some ne
    show ?thesis by (auto simp: update_conv')
  qed
qed

lemma fetched_links_new:
  assumes "fetched env d = Inr (kept, cs)" and "c \<in> set cs"
  shows "link c \<notin> fst ` set kept"
proof -
  from assms(1) have "cs = fetch_news_from_sources (net_feeds env) (net_download env) NEWS_SOURCES 10
      (set (map fst kept))"
    by (auto simp: fetched_def split: sum.splits)
  with assms(2) have "c \<in> set (fetch_news_from_sources (net_feeds env) (net_download env)
      NEWS_SOURCES 10 (set (map fst kept)))" by simp
  then obtain src :: news_source and e where
    "fetch_entry (net_download env) (set (map fst kept)) (source_name src) e = Some c"
    unfolding fetch_news_from_sources_mem by blast
  from fetch_entry_Some(3) [OF this] show ?thesis by simp
qed

text \<open>
  Claim C4, as the code has it: a candidate of the run whose summarization call returns the
  failure sentinel gives no article, and, unless another candidate of the same run with the
  same URL is enriched, no article of the run carries its URL and its URL is not a key of the
  ledger mapping that the run saves.
\<close>

theorem summarization_failure_drop:
  assumes "fetched env d = Inr (kept, cs)"
    and "i < length cs"
    and "fst (generate_axios_summary (ai_summarizer env i) 3) = None"
    and "\<forall>j < length cs. j \<noteq> i \<and> link (cs ! j) = link (cs ! i) \<longrightarrow>
           process_single_article (ai_summarizer env j) (ai_classifier env j) (cs ! j) = None"
  shows "process_single_article (ai_summarizer env i) (ai_classifier env i) (cs ! i) = None
       \<and> link (cs ! i) \<notin> link ` set (fst (enrich_all env cs kept))
       \<and> link (cs ! i) \<notin> fst ` set (snd (enrich_all env cs kept))"
proof -
  let ?u = "link (cs ! i)"
  let ?order = "filter (\<lambda>i. i < length cs) (completion_order env)"
  have own: "process_single_article (ai_summarizer env i) (ai_classifier env i) (cs ! i) = None"
    using assms(3) by (rule process_single_article_no_summary)
  have other: "\<forall>j \<in> set ?order. \<forall>a.
      process_single_article (ai_summarizer env j) (ai_classifier env j) (cs ! j) = Some a
        \<longrightarrow> link a \<noteq> ?u"
  proof (intro ballI allI impI notI)
    fix j a
    assume in_order: "j \<in> set ?order"
      and res: "process_single_article (ai_summarizer env j) (ai_classifier env j) (cs ! j) = Some a"
      and eq: "link a = ?u"
    from in_order have j: "j < length cs" by simp
    from res have "link a = link (cs ! j)" by (rule process_single_article_link)
    with eq have "link (cs ! j) = ?u" by simp
    with j assms(4) own res show False by (cases "j = i") auto
  qed
  have "map_of (snd (as_completed_loop env cs ?order 0 ([], kept))) ?u = map_of kept ?u
      \<and> (?u \<in> link ` set (fst (as_completed_loop env cs ?order 0 ([], kept)))
           \<longleftrightarrow> ?u \<in> link ` set ([] :: article list))"
    using other by (rule as_completed_loop_other_url)
  then have m: "map_of (snd (enrich_all env cs kept)) ?u = map_of kept ?u"
    and s: "?u \<notin> link ` set (fst (enrich_all env cs kept))"
    by (simp_all add: enrich_all_def)
  from assms(2) have "cs ! i \<in> set cs" by simp
  with assms(1) have "?u \<notin> fst ` set kept" by (rule fetched_links_new)
  then have "map_of kept ?u = None" by (simp add: map_of_eq_None_iff)
  with m have "?u \<notin> fst ` set (snd (enrich_all env cs kept))" by (simp add: map_of_eq_None_iff)
  with own s show ?thesis by simp
qed

text \<open>
  Claim C9: when the run fetched at least one candidate and the summarization call returned
  the failure sentinel for every candidate, the run returns with the disk exactly as it was:
  the purged ledger is not written back, no archive file is written, nothing is swept.
\<close>

theorem all_fail_run_persists_nothing:
  assumes "fetched env d = Inr (kept, cs)" and "cs \<noteq> []"
    and "\<forall>i < length cs. fst (generate_axios_summary (ai_summarizer env i) 3) = None"
  shows "run_news_report env d = (d, Returned)"
proof -
  let ?order = "filter (\<lambda>i. i < length cs) (completion_order env)"
  have "as_completed_loop env cs ?order 0 ([], kept) = ([], kept)"
  proof (rule as_completed_loop_all_none)
    fix i assume "i \<in> set ?order"
    then have "i < length cs" by simp
    with assms(3) show "process_single_article (ai_summarizer env i) (ai_classifier env i) (cs ! i) = None"
      by (simp add: process_single_article_no_summary)
  qed
  then have "enrich_all env cs kept = ([], kept)" by (simp add: enrich_all_def)
  with assms(1,2) show ?thesis by (simp add: run_news_report_def)
qed

lemmas enrich_eval = enrich_all_def process_single_article_def generate_axios_summary_def
  analyze_content_def retry_loop.simps

theorem all_fail_run_persists_nothing_witness:
  "run_news_report (example_env\<lparr>ai_summarizer := \<lambda>i k. None\<rparr>) example_disk
     = (example_disk, Returned)
   \<and> fetched (example_env\<lparr>ai_summarizer := \<lambda>i k. None\<rparr>) example_disk
     = Inr ([(''https://old/2'', Aware 1999999999999)], [rates0, audit1, rates2])"
  using all_fail_run_persists_nothing
    [of "example_env\<lparr>ai_summarizer := \<lambda>i k. None\<rparr>" example_disk
        "[(''https://old/2'', Aware 1999999999999)]" "[rates0, audit1, rates2]"]
  by (simp add: run_eval rates0_def audit1_def rates2_def enrich_eval)

theorem summarization_failure_drop_witness:
  "enrich_all (example_env\<lparr>ai_summarizer := \<lambda>i k. if i = 1 then Some ''**Headline:** News'' else None\<rparr>)
      [rates0, audit1, rates2] [(''https://old/2'', Aware 1999999999999)]
    = ([\<lparr>source = ''CFO Dive'', title = ''Audit'', link = ''https://www.cfo.com/news/audit'',
          date = ''Tue'', is_full_text = False, summary = ''**Headline:** News'',
          sentiment = JStr ''Neutral'', entities = JObj [], pdf_link = None\<rparr>],
       [(''https://old/2'', Aware 1999999999999),
        (''https://www.cfo.com/news/audit'', Aware 2000000001002)])"
  using summarization_failure_drop
    [of "example_env\<lparr>ai_summarizer := \<lambda>i k. if i = 1 then Some ''**Headline:** News'' else None\<rparr>"
        example_disk "[(''https://old/2'', Aware 1999999999999)]" "[rates0, audit1, rates2]" 0]
  by (simp add: run_eval rates0_def audit1_def rates2_def enrich_eval)

text \<open>
  The claim as written does not hold when two candidates share a URL, which the fetcher
  allows: in the example world the first candidate's summarization fails at all three
  attempts, the third candidate has the same URL and is enriched, and the URL is in the
  ledger mapping the run saves.
\<close>

theorem summarization_failure_drop_counterexample:
  "fetched example_env example_disk
     = Inr ([(''https://old/2'', Aware 1999999999999)], [rates0, audit1, rates2])
   \<and> generate_axios_summary (ai_summarizer example_env 0) 3 = (None, 3)
   \<and> link rates0 = ''https://www.cfo.com/news/rates''
   \<and> map fst (snd (enrich_all example_env [rates0, audit1, rates2]
                     [(''https://old/2'', Aware 1999999999999)]))
       = [''https://old/2'', ''https://www.cfo.com/news/rates'', ''https://www.cfo.com/news/audit'']
   \<and> processed_urls_file (fst (run_news_report example_env example_disk))
       = JsonDict [(''https://old/2'', Aware 1999999999999),
                   (''https://www.cfo.com/news/rates'', Aware 2000000001000),
                   (''https://www.cfo.com/news/audit'', Aware 2000000001002)]"
  by (simp add: run_eval rates0_def audit1_def rates2_def enrich_eval run_news_report_def
      generate_hedge_fund_takeaways_def add_pdf_links_def write_archive_def cleanup_old_files_def)

end
